theory Spec2Isabelle
  imports Main "HOL-Library.Sublist" "HOL-Library.Multiset"
begin

section \<open>The listings panel of the lost-and-found frontend\<close>

text \<open>
  A shallow embedding of \<^verbatim>\<open>src/components/my-listings.tsx\<close>: the React component
  \<^verbatim>\<open>MyListings\<close>, its effect \<^verbatim>\<open>fetchMyListings\<close>, its click handler
  \<^verbatim>\<open>handleDelete\<close> and its helper \<^verbatim>\<open>getLocationString\<close>.

  The component state (three \<^verbatim>\<open>useState\<close> cells) is a record that the handlers
  take and return. An awaited backend call is a function from the request that was built
  to the response that came back; whatever else a handler does to the outside (dialogs,
  console output) is returned as a list of effects, in the order of the source. A handler
  gives up control at its \<^verbatim>\<open>await\<close>: what it does before and what it does after are
  separate steps of the component, and steps of other handlers may come in between.
\<close>

subsection \<open>Data model\<close>

text \<open>
  \<^verbatim>\<open>interface Listing\<close> (lines 12--22). An optional or nullable field is an
  \<open>option\<close>; \<^verbatim>\<open>id\<close> is called \<open>lid\<close> here, since \<open>id\<close> is the identity function
  of HOL, and \<^verbatim>\<open>type\<close> is called \<open>type_l\<close>.
\<close>

datatype listing_type = Lost | Found

record category =
  name :: string

record location =
  district :: "string option"
  province :: "string option"
  address :: "string option"

record media_item =
  url :: string

record listing =
  lid :: string
  title :: string
  type_l :: listing_type
  category :: "category option"
  location :: "location option"
  created_at :: string
  media :: "media_item list"
  view_count :: int
  status :: string

text \<open>\<^verbatim>\<open>MyListingsProps.status\<close>: one of three string literals.\<close>

datatype status_tag = Active | Closed | Archived

fun status_str :: "status_tag \<Rightarrow> string" where
  "status_str Active = ''active''"
| "status_str Closed = ''closed''"
| "status_str Archived = ''archived''"

subsection \<open>JavaScript primitives used by the component\<close>

text \<open>
  Truthiness of a value of type \<^verbatim>\<open>string | undefined | null\<close>: \<^verbatim>\<open>undefined\<close>,
  \<^verbatim>\<open>null\<close> and the empty string are falsy, every other string is truthy.
\<close>

fun truthy :: "string option \<Rightarrow> bool" where
  "truthy None = False"
| "truthy (Some s) = (s \<noteq> [])"

text \<open>\<^verbatim>\<open>Array.prototype.join\<close> on an array of strings.\<close>

fun join :: "string \<Rightarrow> string list \<Rightarrow> string" where
  "join sep [] = []"
| "join sep [x] = x"
| "join sep (x # y # ys) = x @ sep @ join sep (y # ys)"

text \<open>
  \<^verbatim>\<open>if (field) parts.push(field)\<close>: the array after the statement.
\<close>

fun push_if :: "string list \<Rightarrow> string option \<Rightarrow> string list" where
  "push_if parts None = parts"
| "push_if parts (Some s) = (if s \<noteq> [] then parts @ [s] else parts)"

subsection \<open>Location display\<close>

text \<open>\<^verbatim>\<open>getLocationString\<close> (lines 103--110).\<close>

definition getLocationString :: "location option \<Rightarrow> string" where
  "getLocationString loc =
     (case loc of
        None \<Rightarrow> ''Unknown location''
      | Some l \<Rightarrow>
          (let parts = [];
               parts = push_if parts (address l);
               parts = push_if parts (district l);
               parts = push_if parts (province l)
           in if length parts > 0 then join '', '' parts else ''Unknown location''))"

text \<open>
  The reading of the specification: the fields that are present, in the order address,
  district, province. A field is present when it holds a non-empty string.
\<close>

definition present_fields :: "location \<Rightarrow> string list" where
  "present_fields l =
     concat (map (\<lambda>f. case f of None \<Rightarrow> [] | Some s \<Rightarrow> (if s = [] then [] else [s]))
       [address l, district l, province l])"

definition location_display_spec :: "location option \<Rightarrow> string" where
  "location_display_spec loc =
     (case loc of
        None \<Rightarrow> ''Unknown location''
      | Some l \<Rightarrow>
          (if present_fields l = [] then ''Unknown location''
           else join '', '' (present_fields l)))"

subsection \<open>Component state and the outside world\<close>

text \<open>
  \<^verbatim>\<open>useAuth()\<close> yields a user object or \<^verbatim>\<open>null\<close> and a session object or
  \<^verbatim>\<open>null\<close>. Of the user only \<^verbatim>\<open>id\<close> is read (\<open>uid\<close> here); of the session
  only whether it is there.
\<close>

record auth_user =
  uid :: string

datatype session = Session string

text \<open>The three state cells of lines 30--32 and their initial values.\<close>

record panel =
  listings :: "listing list"
  isLoading :: bool
  error :: "string option"

definition initial :: panel where
  "initial = \<lparr>listings = [], isLoading = True, error = None\<rparr>"

text \<open>
  A request as the query builder assembles it: the table, the selected columns, the
  equality filters in the order of the \<^verbatim>\<open>.eq\<close> calls, and the ordering. The value of a
  filter is an \<open>option\<close> because \<^verbatim>\<open>user?.id\<close> may be \<^verbatim>\<open>undefined\<close>.
\<close>

datatype col_filter = Eq string "string option"

record select_request =
  sel_from :: string
  sel_columns :: "string list"
  sel_eq :: "col_filter list"
  sel_order :: "string \<times> bool"

record delete_request =
  del_from :: string
  del_eq :: "col_filter list"

text \<open>
  What an awaited call gives back: it throws, or it resolves to an object with the fields
  \<^verbatim>\<open>data\<close> and \<^verbatim>\<open>error\<close>, each of which may be \<^verbatim>\<open>null\<close>.
\<close>

datatype 'a response = Threw | Returned "'a option" "string option"

datatype effect =
    Select select_request
  | Delete delete_request
  | Confirm string
  | Alert string
  | ConsoleError string

fun issued_selects :: "effect list \<Rightarrow> select_request list" where
  "issued_selects [] = []"
| "issued_selects (Select q # es) = q # issued_selects es"
| "issued_selects (e # es) = issued_selects es"

fun issued_deletes :: "effect list \<Rightarrow> delete_request list" where
  "issued_deletes [] = []"
| "issued_deletes (Delete q # es) = q # issued_deletes es"
| "issued_deletes (e # es) = issued_deletes es"

fun alerts :: "effect list \<Rightarrow> string list" where
  "alerts [] = []"
| "alerts (Alert m # es) = m # alerts es"
| "alerts (e # es) = alerts es"

subsection \<open>Fetching the listings\<close>

text \<open>The request of lines 45--60.\<close>

definition listings_query :: "auth_user \<Rightarrow> status_tag \<Rightarrow> select_request" where
  "listings_query user st =
     \<lparr>sel_from = ''items'',
      sel_columns = [''id'', ''title'', ''type'', ''status'', ''created_at'', ''location'',
        ''view_count'', ''category:categories(name)'', ''media:item_media(url)''],
      sel_eq = [Eq ''user_id'' (Some (uid user)), Eq ''status'' (Some (status_str st))],
      sel_order = (''created_at'', False)\<rparr>"

text \<open>
  \<^verbatim>\<open>fetchMyListings\<close> (lines 35--75) suspends once, at the \<^verbatim>\<open>await\<close> of line 45,
  and nothing cancels a run that is suspended: other handlers may update the state
  before it resumes. So the function is given in two parts, each of which runs without
  interruption.

  The first part, lines 36--60: the guard, the two updates before the request, and the
  request, which is on its way from then on.
\<close>

definition fetchMyListings_start ::
  "auth_user option \<Rightarrow> session option \<Rightarrow> status_tag \<Rightarrow> panel \<Rightarrow> panel \<times> effect list" where
  "fetchMyListings_start user sess st_prop st =
     (case user of
        None \<Rightarrow> (st\<lparr>isLoading := False\<rparr>, [])
      | Some u \<Rightarrow>
          (case sess of
             None \<Rightarrow> (st\<lparr>isLoading := False\<rparr>, [])
           | Some _ \<Rightarrow>
               (let st1 = st\<lparr>isLoading := True\<rparr>;
                    st2 = st1\<lparr>error := None\<rparr>
                in (st2, [Select (listings_query u st_prop)]))))"

text \<open>
  The second part, lines 62--74, on the state as it is when the response arrives. The
  \<^verbatim>\<open>finally\<close> block clears the loading flag on each of the three ways out of the
  \<^verbatim>\<open>try\<close>.
\<close>

definition fetchMyListings_resume :: "listing list response \<Rightarrow> panel \<Rightarrow> panel \<times> effect list" where
  "fetchMyListings_resume resp st =
     (case resp of
        Returned d (Some fetchError) \<Rightarrow>
          (st\<lparr>error := Some ''Failed to load listings'', isLoading := False\<rparr>,
           [ConsoleError ''Error fetching listings:''])
      | Returned d None \<Rightarrow>
          (st\<lparr>listings := (case d of Some rows \<Rightarrow> rows | None \<Rightarrow> []), isLoading := False\<rparr>,
           [])
      | Threw \<Rightarrow>
          (st\<lparr>error := Some ''Failed to load listings'', isLoading := False\<rparr>,
           [ConsoleError ''Error:'']))"

text \<open>
  One run of the effect during which nothing else touches the state: the first part
  and, if a request was issued, the second part on the state that the first part left.
\<close>

definition fetchMyListings ::
  "(select_request \<Rightarrow> listing list response) \<Rightarrow> auth_user option \<Rightarrow> session option \<Rightarrow>
     status_tag \<Rightarrow> panel \<Rightarrow> panel \<times> effect list" where
  "fetchMyListings await_select user sess st_prop st =
     (let started = fetchMyListings_start user sess st_prop st
      in case issued_selects (snd started) of
           [] \<Rightarrow> started
         | q # _ \<Rightarrow>
             (let resumed = fetchMyListings_resume (await_select q) (fst started)
              in (fst resumed, snd started @ snd resumed)))"

subsection \<open>Deleting a listing\<close>

text \<open>The request of lines 84--88.\<close>

definition delete_query :: "string \<Rightarrow> auth_user option \<Rightarrow> delete_request" where
  "delete_query listingId user =
     \<lparr>del_from = ''items'',
      del_eq = [Eq ''id'' (Some listingId), Eq ''user_id'' (map_option uid user)]\<rparr>"

text \<open>
  \<^verbatim>\<open>handleDelete\<close> (lines 80--101). \<open>answer\<close> is what \<^verbatim>\<open>confirm\<close> returned.
  \<open>shown\<close> is the array \<^verbatim>\<open>listings\<close> that the handler closed over, that is, the list of
  the render whose button was clicked. The handler suspends at the \<^verbatim>\<open>await\<close> of line
  84 and writes no state before it, so \<open>st\<close> is the state as it is when the response
  arrives; \<open>shown\<close> may be older than that state.
\<close>

definition handleDelete ::
  "(delete_request \<Rightarrow> unit response) \<Rightarrow> bool \<Rightarrow> auth_user option \<Rightarrow> listing list \<Rightarrow>
     string \<Rightarrow> panel \<Rightarrow> panel \<times> effect list" where
  "handleDelete await_delete answer user shown listingId st =
     (let asked = Confirm ''Are you sure you want to delete this listing?''
      in if \<not> answer then (st, [asked])
         else
           (let q = delete_query listingId user
            in case await_delete q of
                 Returned d (Some deleteError) \<Rightarrow>
                   (st, [asked, Delete q, ConsoleError ''Error deleting listing:'',
                         Alert ''Failed to delete listing''])
               | Returned d None \<Rightarrow>
                   (st\<lparr>listings := filter (\<lambda>l. lid l \<noteq> listingId) shown\<rparr>,
                    [asked, Delete q])
               | Threw \<Rightarrow>
                   (st, [asked, Delete q, ConsoleError ''Error:'',
                         Alert ''Failed to delete listing''])))"

subsection \<open>Rendering\<close>

text \<open>
  What the component returns (lines 112--232), reduced to its content. The date is kept
  as the \<^verbatim>\<open>created_at\<close> string that is handed to \<^verbatim>\<open>toLocaleDateString\<close>.
\<close>

datatype click = Reload | GoTo string | CallHandleDelete string | Nothing

record card =
  card_key :: string
  img_src :: string
  img_alt :: string
  heading :: string
  badge :: string
  category_text :: string
  location_text :: string
  date_source :: string
  views :: int
  view_link :: click
  edit_button :: click
  delete_button :: click

datatype view =
    LoadingView
  | ErrorView string click
  | EmptyView string click
  | CardsView "card list"

text \<open>\<^verbatim>\<open>a || b\<close> on strings.\<close>

fun or_else :: "string option \<Rightarrow> string \<Rightarrow> string" where
  "or_else None d = d"
| "or_else (Some s) d = (if s \<noteq> [] then s else d)"

definition renderCard :: "listing \<Rightarrow> card" where
  "renderCard l =
     \<lparr>card_key = lid l,
      img_src = or_else (case media l of [] \<Rightarrow> None | m # _ \<Rightarrow> Some (url m)) ''/placeholder.svg'',
      img_alt = title l,
      heading = title l,
      badge = (if type_l l = Lost then ''Lost'' else ''Found''),
      category_text = or_else (map_option name (category l)) ''Uncategorized'',
      location_text = getLocationString (location l),
      date_source = created_at l,
      views = view_count l,
      view_link = GoTo (''/listing/'' @ lid l),
      edit_button = Nothing,
      delete_button = CallHandleDelete (lid l)\<rparr>"

text \<open>
  The four branches of the render, in the order of the source. In the error branch
  \<^verbatim>\<open>error\<close> is a non-empty string, which \<open>or_else\<close> reads out.
\<close>

definition MyListings :: "status_tag \<Rightarrow> panel \<Rightarrow> view" where
  "MyListings st_prop st =
     (if isLoading st then LoadingView
      else if truthy (error st) then ErrorView (or_else (error st) []) Reload
      else if length (listings st) = 0
        then EmptyView (''No '' @ status_str st_prop @ '' listings yet'') (GoTo ''/listing/create'')
      else CardsView (map renderCard (listings st)))"

fun cards :: "view \<Rightarrow> card list" where
  "cards (CardsView cs) = cs"
| "cards v = []"

text \<open>The rows that are on the screen: those of the last branch of the render.\<close>

definition displayed :: "panel \<Rightarrow> listing list" where
  "displayed st =
     (if isLoading st then [] else if truthy (error st) then [] else listings st)"


subsection \<open>The component over time\<close>

text \<open>
  React runs the effect of lines 34--78 after the first render and again after every
  render in which \<^verbatim>\<open>user\<close>, \<^verbatim>\<open>session\<close> or \<^verbatim>\<open>status\<close> has changed; a click on a
  delete button runs \<^verbatim>\<open>handleDelete\<close>. Both suspend at their request, and the effect
  has no cleanup: any number of requests may be in flight, and they may resolve in any
  order. An event is therefore either the start of a handler or the arrival of the
  response to one of the requests in flight, named by its position among them.

  A delete in flight remembers what its handler closed over: the id, the user and the
  list of the render in which the button was clicked.
\<close>

datatype event =
    Deps "auth_user option" "session option" status_tag
  | SelectDone nat "listing list response"
  | Click string bool
  | DeleteDone nat "unit response"

record pending_delete =
  pd_id :: string
  pd_user :: "auth_user option"
  pd_shown :: "listing list"

record mounted =
  props_user :: "auth_user option"
  props_status :: status_tag
  ui :: panel
  reads :: "select_request list"
  deletes :: "pending_delete list"

definition drop_nth :: "nat \<Rightarrow> 'a list \<Rightarrow> 'a list" where
  "drop_nth k xs = take k xs @ drop (Suc k) xs"

fun step :: "mounted \<Rightarrow> event \<Rightarrow> mounted" where
  "step m (Deps user sess st_prop) =
     (let started = fetchMyListings_start user sess st_prop (ui m)
      in m\<lparr>props_user := user, props_status := st_prop, ui := fst started,
           reads := reads m @ issued_selects (snd started)\<rparr>)"
| "step m (SelectDone k resp) =
     (if k < length (reads m)
      then m\<lparr>ui := fst (fetchMyListings_resume resp (ui m)), reads := drop_nth k (reads m)\<rparr>
      else m)"
| "step m (Click listingId answer) =
     (if answer
      then m\<lparr>deletes := deletes m @
             [\<lparr>pd_id = listingId, pd_user = props_user m, pd_shown = listings (ui m)\<rparr>]\<rparr>
      else m)"
| "step m (DeleteDone k resp) =
     (if k < length (deletes m)
      then (let d = deletes m ! k
            in m\<lparr>ui := fst (handleDelete (\<lambda>q. resp) True (pd_user d) (pd_shown d) (pd_id d)
                            (ui m)),
                 deletes := drop_nth k (deletes m)\<rparr>)
      else m)"

definition run_events :: "auth_user option \<Rightarrow> status_tag \<Rightarrow> event list \<Rightarrow> mounted" where
  "run_events user st_prop evs =
     foldl step
       \<lparr>props_user = user, props_status = st_prop, ui = initial, reads = [], deletes = []\<rparr>
       evs"

text \<open>
  A sequence of events in which no two requests overlap: every request is answered
  before the next event (the last one may still be in flight).
\<close>

fun no_overlap :: "event list \<Rightarrow> bool" where
  "no_overlap [] = True"
| "no_overlap (SelectDone k resp # evs) = False"
| "no_overlap (DeleteDone k resp # evs) = False"
| "no_overlap [e] = True"
| "no_overlap (Deps user sess st_prop # SelectDone k resp # evs) =
     (user \<noteq> None \<and> sess \<noteq> None \<and> k = 0 \<and> no_overlap evs)"
| "no_overlap (Deps user sess st_prop # e # evs) =
     ((user = None \<or> sess = None) \<and> no_overlap (e # evs))"
| "no_overlap (Click listingId answer # DeleteDone k resp # evs) =
     (answer \<and> k = 0 \<and> no_overlap evs)"
| "no_overlap (Click listingId answer # e # evs) = (\<not> answer \<and> no_overlap (e # evs))"





subsection \<open>The backend\<close>

text \<open>
  Modelled from the spec: the hosted backend that executes the two requests is reached
  through the client library and is not part of the sources. Section 6 of the
  specification describes it: the read selects the rows of the items table that pass the
  owner and status filters, ordered by creation time descending; the write deletes the
  rows of the items table that pass the id and owner filters. A row of the table is a
  listing with the id of its owner. \<open>ts\<close> reads a timestamp string as an instant. A
  filter whose value is \<^verbatim>\<open>undefined\<close> is passed by no row.
\<close>

record item_row =
  user_id :: string
  item :: listing

fun column :: "string \<Rightarrow> item_row \<Rightarrow> string option" where
  "column c r =
     (if c = ''id'' then Some (lid (item r))
      else if c = ''user_id'' then Some (user_id r)
      else if c = ''status'' then Some (status (item r))
      else None)"

fun passes :: "item_row \<Rightarrow> col_filter \<Rightarrow> bool" where
  "passes r (Eq c None) = False"
| "passes r (Eq c (Some v)) = (column c r = Some v)"

definition order_rows :: "(string \<Rightarrow> int) \<Rightarrow> string \<times> bool \<Rightarrow> item_row list \<Rightarrow> item_row list" where
  "order_rows ts ord rows =
     (if fst ord = ''created_at''
      then (if snd ord then sort_key (\<lambda>r. ts (created_at (item r))) rows
            else sort_key (\<lambda>r. - ts (created_at (item r))) rows)
      else rows)"

definition run_select ::
  "(string \<Rightarrow> int) \<Rightarrow> item_row list \<Rightarrow> select_request \<Rightarrow> listing list response" where
  "run_select ts db q =
     (if sel_from q = ''items''
      then Returned
             (Some (map item (order_rows ts (sel_order q)
                (filter (\<lambda>r. list_all (passes r) (sel_eq q)) db)))) None
      else Returned None (Some ''unknown table''))"

definition run_delete :: "item_row list \<Rightarrow> delete_request \<Rightarrow> item_row list" where
  "run_delete db q =
     (if del_from q = ''items''
      then filter (\<lambda>r. \<not> list_all (passes r) (del_eq q)) db
      else db)"

subsection \<open>Sample data\<close>

text \<open>
  Three rows, a reading of their timestamps and two accounts, for the concrete instances
  below.
\<close>

definition wallet :: listing where
  "wallet = \<lparr>lid = ''1'', title = ''Wallet'', type_l = Lost, category = None,
     location = None, created_at = ''2024-01-01T08:00:00Z'', media = [], view_count = 0,
     status = ''active''\<rparr>"

definition keys :: listing where
  "keys = \<lparr>lid = ''2'', title = ''Keys'', type_l = Found, category = Some \<lparr>name = ''Keys''\<rparr>,
     location = Some \<lparr>district = Some ''Kathmandu'', province = Some ''Bagmati'', address = None\<rparr>,
     created_at = ''2024-01-02T08:00:00Z'', media = [\<lparr>url = ''/keys.jpg''\<rparr>], view_count = 3,
     status = ''active''\<rparr>"

definition phone :: listing where
  "phone = \<lparr>lid = ''3'', title = ''Phone'', type_l = Found, category = None,
     location = None, created_at = ''2023-12-24T08:00:00Z'', media = [], view_count = 7,
     status = ''closed''\<rparr>"

definition clock :: "string \<Rightarrow> int" where
  "clock t =
     (if t = ''2024-01-02T08:00:00Z'' then 2 else if t = ''2024-01-01T08:00:00Z'' then 1 else 0)"

definition asha :: auth_user where
  "asha = \<lparr>uid = ''u1''\<rparr>"

definition bina :: auth_user where
  "bina = \<lparr>uid = ''u2''\<rparr>"


section \<open>Helper lemmas\<close>

lemma push_if_conv:
  "push_if parts f = parts @ (case f of None \<Rightarrow> [] | Some s \<Rightarrow> (if s = [] then [] else [s]))"
  by (cases f) simp_all

lemma getLocationString_parts:
  "getLocationString (Some l) =
     (if present_fields l = [] then ''Unknown location'' else join '', '' (present_fields l))"
  by (simp add: getLocationString_def present_fields_def push_if_conv Let_def)

lemma filter_remove1_distinct:
  "r \<in> set xs \<Longrightarrow> distinct (map f xs) \<Longrightarrow> filter (\<lambda>l. f l \<noteq> f r) xs = remove1 r xs"
proof (induction xs)
  case Nil
  then show ?case by simp
next
  case (Cons x xs)
  show ?case
  proof (cases "x = r")
    case True
    with Cons.prems have "\<forall>y\<in>set xs. f y \<noteq> f r"
      by (auto simp: image_iff)
    then have "filter (\<lambda>l. f l \<noteq> f r) xs = xs"
      by (simp add: filter_id_conv)
    with True show ?thesis by simp
  next
    case False
    with Cons.prems have "r \<in> set xs" "distinct (map f xs)" "f x \<noteq> f r"
      by auto
    with Cons.IH False show ?thesis by simp
  qed
qed



text \<open>
  The two parts of \<^verbatim>\<open>fetchMyListings\<close> put together: the run in one piece, branch by
  branch.
\<close>

lemma fetchMyListings_unfold:
  "fetchMyListings await_select user sess st_prop st =
     (case user of
        None \<Rightarrow> (st\<lparr>isLoading := False\<rparr>, [])
      | Some u \<Rightarrow>
          (case sess of
             None \<Rightarrow> (st\<lparr>isLoading := False\<rparr>, [])
           | Some _ \<Rightarrow>
               (let st1 = st\<lparr>isLoading := True\<rparr>;
                    st2 = st1\<lparr>error := None\<rparr>;
                    q = listings_query u st_prop
                in case await_select q of
                     Returned d (Some fetchError) \<Rightarrow>
                       (st2\<lparr>error := Some ''Failed to load listings'', isLoading := False\<rparr>,
                        [Select q, ConsoleError ''Error fetching listings:''])
                   | Returned d None \<Rightarrow>
                       (st2\<lparr>listings := (case d of Some rows \<Rightarrow> rows | None \<Rightarrow> []),
                            isLoading := False\<rparr>,
                        [Select q])
                   | Threw \<Rightarrow>
                       (st2\<lparr>error := Some ''Failed to load listings'', isLoading := False\<rparr>,
                        [Select q, ConsoleError ''Error:'']))))"
  by (simp add: fetchMyListings_def fetchMyListings_start_def fetchMyListings_resume_def Let_def
      split: option.splits response.splits)




lemma start_auth:
  "fetchMyListings_start (Some u) (Some s) st_prop st =
     (st\<lparr>isLoading := True, error := None\<rparr>, [Select (listings_query u st_prop)])"
  by (simp add: fetchMyListings_start_def Let_def)


text \<open>
  When a successful response arrives on any state, the rows on the screen are its rows,
  or none if an error is set.
\<close>

lemma displayed_resume_success:
  "displayed (fst (fetchMyListings_resume (Returned (Some rows) None) st))
     = (if truthy (error st) then [] else rows)"
  by (simp add: fetchMyListings_resume_def displayed_def)











lemma cards_displayed: "cards (MyListings st_prop st) = map renderCard (displayed st)"
  by (simp add: MyListings_def displayed_def)

lemma select_rows:
  "run_select ts db (listings_query u st_prop) =
     Returned (Some (map item (sort_key (\<lambda>r. - ts (created_at (item r)))
        (filter (\<lambda>r. user_id r = uid u \<and> status (item r) = status_str st_prop) db)))) None"
  by (simp add: run_select_def listings_query_def order_rows_def)

lemma sorted_newest_first:
  fixes ts :: "string \<Rightarrow> int"
  shows "sorted_wrt (\<lambda>a b. ts (created_at b) \<le> ts (created_at a))
     (map item (sort_key (\<lambda>r. - ts (created_at (item r))) xs))"
proof -
  have "sorted (map (\<lambda>r. - ts (created_at (item r)))
      (sort_key (\<lambda>r. - ts (created_at (item r))) xs))"
    by (rule sorted_sort_key)
  then show ?thesis
    by (simp add: sorted_wrt_map sorted_map)
qed

lemma delete_rows:
  "run_delete db (delete_query listingId (Some u)) =
     filter (\<lambda>r. \<not> (lid (item r) = listingId \<and> user_id r = uid u)) db"
  by (simp add: run_delete_def delete_query_def)


section \<open>The claims\<close>

subsection \<open>C1: the rows on the screen and the rows of the query\<close>




text \<open>
  Without the condition on overlap the invariant is lost as well. The status filter
  changes from "active" to "closed" while the first query is in flight, and the second
  query is answered first. When the answer to the first arrives, its rows replace those
  of the second: the screen shows the active rows, although the query issued last
  returned the closed one.
\<close>

lemma overlapping_reads_show_older_rows:
  "\<not> no_overlap
       [Deps (Some asha) (Some (Session ''t'')) Active,
        Deps (Some asha) (Some (Session ''t'')) Closed,
        SelectDone 1 (Returned (Some [phone]) None),
        SelectDone 0 (Returned (Some [keys, wallet]) None)]
   \<and> reads (run_events (Some asha) Active
       [Deps (Some asha) (Some (Session ''t'')) Active,
        Deps (Some asha) (Some (Session ''t'')) Closed])
     = [listings_query asha Active, listings_query asha Closed]
   \<and> displayed (ui (run_events (Some asha) Active
       [Deps (Some asha) (Some (Session ''t'')) Active,
        Deps (Some asha) (Some (Session ''t'')) Closed,
        SelectDone 1 (Returned (Some [phone]) None)])) = [phone]
   \<and> displayed (ui (run_events (Some asha) Active
       [Deps (Some asha) (Some (Session ''t'')) Active,
        Deps (Some asha) (Some (Session ''t'')) Closed,
        SelectDone 1 (Returned (Some [phone]) None),
        SelectDone 0 (Returned (Some [keys, wallet]) None)])) = [keys, wallet]"
  by (simp add: run_events_def fetchMyListings_start_def fetchMyListings_resume_def
      displayed_def initial_def Let_def drop_nth_def)

subsection \<open>C2: the location display\<close>

text \<open>
  Claim C2. For every location value, \<^verbatim>\<open>getLocationString\<close> returns the join with
  \<^verbatim>\<open>", "\<close> of exactly the present fields among address, district and province, in that
  order, and the fixed string "Unknown location" when the location is absent or no field
  is present. A field counts as present when it holds a non-empty string. In particular
  a location with only an address formats as the address, one with district and province
  as "district, province", and one without fields as "Unknown location".
\<close>

theorem getLocationString_joins_present_fields:
  "getLocationString loc = location_display_spec loc
   \<and> getLocationString
        (Some \<lparr>district = None, province = None, address = Some ''Thamel Marg 12''\<rparr>)
       = ''Thamel Marg 12''
   \<and> getLocationString
        (Some \<lparr>district = Some ''Kathmandu'', province = Some ''Bagmati'', address = None\<rparr>)
       = ''Kathmandu, Bagmati''
   \<and> getLocationString (Some \<lparr>district = None, province = None, address = None\<rparr>)
       = ''Unknown location''
   \<and> getLocationString None = ''Unknown location''"
proof -
  have "getLocationString loc = location_display_spec loc"
  proof (cases loc)
    case None
    then show ?thesis by (simp add: getLocationString_def location_display_spec_def)
  next
    case (Some l)
    then show ?thesis by (simp add: getLocationString_parts location_display_spec_def)
  qed
  moreover have "getLocationString
        (Some \<lparr>district = None, province = None, address = Some ''Thamel Marg 12''\<rparr>)
       = ''Thamel Marg 12''"
    by (simp add: getLocationString_def)
  moreover have "getLocationString
        (Some \<lparr>district = Some ''Kathmandu'', province = Some ''Bagmati'', address = None\<rparr>)
       = ''Kathmandu, Bagmati''"
    by (simp add: getLocationString_def)
  moreover have "getLocationString (Some \<lparr>district = None, province = None, address = None\<rparr>)
       = ''Unknown location''"
    by (simp add: getLocationString_def)
  moreover have "getLocationString None = ''Unknown location''"
    by (simp add: getLocationString_def)
  ultimately show ?thesis by blast
qed

subsection \<open>C3: mounting without an identity\<close>

text \<open>
  Claim C3. If the user or the session is missing when the panel mounts, the effect
  leaves the panel not loading, with an empty row list and no error, and issues no read
  query (it has no effect on the outside at all).
\<close>

theorem fetchMyListings_unauthenticated_mount:
  assumes "user = None \<or> sess = None"
  shows "fetchMyListings await_select user sess st_prop initial
     = (\<lparr>listings = [], isLoading = False, error = None\<rparr>, [])"
  using assms by (auto simp: fetchMyListings_unfold initial_def split: option.splits)

text \<open>An instance: a user object without a session.\<close>

theorem fetchMyListings_unauthenticated_mount_witness:
  "(Some asha = None \<or> (None :: session option) = None)
   \<and> fetchMyListings (\<lambda>q. Returned (Some [wallet]) None) (Some asha) None Active initial
     = (\<lparr>listings = [], isLoading = False, error = None\<rparr>, [])"
  using fetchMyListings_unauthenticated_mount
    [where user = "Some asha" and sess = None
        and await_select = "\<lambda>q. Returned (Some [wallet]) None" and st_prop = Active]
  by simp

subsection \<open>C4: a delete that succeeds\<close>

text \<open>
  Claim C4. For every displayed row list and every row in it, if the delete request for
  that row succeeds, the new list is the displayed list without the rows of that id, in
  the same order; when the ids of the displayed rows are distinct, as those of the rows
  of one table are, that is the displayed list with exactly that row removed. The rest
  of the panel state is unchanged and no read query is issued.
\<close>

theorem handleDelete_success_removes_row:
  assumes "await_delete (delete_query (lid r) user) = Returned d None"
    and "r \<in> set shown"
  shows "fst (handleDelete await_delete True user shown (lid r) st)
       = st\<lparr>listings := filter (\<lambda>l. lid l \<noteq> lid r) shown\<rparr>
     \<and> (distinct (map lid shown) \<longrightarrow>
          listings (fst (handleDelete await_delete True user shown (lid r) st))
            = remove1 r shown)
     \<and> issued_selects (snd (handleDelete await_delete True user shown (lid r) st)) = []"
  using assms by (simp add: handleDelete_def Let_def filter_remove1_distinct)

text \<open>An instance: of the two rows on the screen the first is deleted.\<close>

theorem handleDelete_success_removes_row_witness:
  "keys \<in> set [keys, wallet] \<and> distinct (map lid [keys, wallet])
   \<and> listings (fst (handleDelete (\<lambda>q. Returned None None) True (Some asha) [keys, wallet]
        (lid keys) \<lparr>listings = [keys, wallet], isLoading = False, error = None\<rparr>)) = [wallet]"
proof -
  have a: "(\<lambda>q. Returned None None :: unit response) (delete_query (lid keys) (Some asha))
      = Returned None None"
    by simp
  have b: "keys \<in> set [keys, wallet]" by simp
  have c: "distinct (map lid [keys, wallet])" by (simp add: keys_def wallet_def)
  have e: "remove1 keys [keys, wallet] = [wallet]" by simp
  show ?thesis
    using b c e handleDelete_success_removes_row [OF a b,
        where st = "\<lparr>listings = [keys, wallet], isLoading = False, error = None\<rparr>"]
    by simp
qed

subsection \<open>C5: a delete that fails\<close>

text \<open>
  Claim C5. For every displayed row list, if the delete request throws or comes back
  with an error, the alert "Failed to delete listing" is shown once and the panel state,
  the row list included, is unchanged.
\<close>

theorem handleDelete_failure_keeps_state:
  assumes "await_delete (delete_query listingId user) = Threw
           \<or> await_delete (delete_query listingId user) = Returned d (Some e)"
  shows "fst (handleDelete await_delete True user shown listingId st) = st
     \<and> alerts (snd (handleDelete await_delete True user shown listingId st))
         = [''Failed to delete listing'']"
  using assms by (auto simp: handleDelete_def Let_def)

text \<open>An instance: the request throws.\<close>

theorem handleDelete_failure_keeps_state_witness:
  "fst (handleDelete (\<lambda>q. Threw) True (Some asha) [keys, wallet] ''1''
        \<lparr>listings = [keys, wallet], isLoading = False, error = None\<rparr>)
     = \<lparr>listings = [keys, wallet], isLoading = False, error = None\<rparr>
   \<and> alerts (snd (handleDelete (\<lambda>q. Threw) True (Some asha) [keys, wallet] ''1''
        \<lparr>listings = [keys, wallet], isLoading = False, error = None\<rparr>))
     = [''Failed to delete listing'']"
  using handleDelete_failure_keeps_state
    [where await_delete = "\<lambda>q. Threw" and listingId = "''1''" and user = "Some asha"
        and shown = "[keys, wallet]"
        and st = "\<lparr>listings = [keys, wallet], isLoading = False, error = None\<rparr>"]
  by simp

subsection \<open>C6: the scope of a delete request\<close>

text \<open>
  Claim C6. The handler issues a delete request only after a confirmed prompt, and that
  request is on the items table with two filters: the id of the target listing and the
  id of the current user. Executed by the backend for a signed-in user, it removes
  exactly the rows that have both that id and that owner, so every row of another owner
  stays in the table.
\<close>

theorem handleDelete_scoped_by_id_and_owner:
  "issued_deletes (snd (handleDelete await_delete answer user shown listingId st))
     = (if answer
        then [\<lparr>del_from = ''items'',
               del_eq = [Eq ''id'' (Some listingId), Eq ''user_id'' (map_option uid user)]\<rparr>]
        else [])
   \<and> run_delete db (delete_query listingId (Some u))
     = filter (\<lambda>r. \<not> (lid (item r) = listingId \<and> user_id r = uid u)) db
   \<and> (\<forall>r \<in> set db. user_id r \<noteq> uid u \<longrightarrow>
        r \<in> set (run_delete db (delete_query listingId (Some u))))"
proof -
  have "issued_deletes (snd (handleDelete await_delete answer user shown listingId st))
     = (if answer
        then [\<lparr>del_from = ''items'',
               del_eq = [Eq ''id'' (Some listingId), Eq ''user_id'' (map_option uid user)]\<rparr>]
        else [])"
    by (simp add: handleDelete_def Let_def delete_query_def
        split: response.splits option.splits)
  moreover have "\<forall>r \<in> set db. user_id r \<noteq> uid u \<longrightarrow>
        r \<in> set (run_delete db (delete_query listingId (Some u)))"
    by (simp add: delete_rows)
  ultimately show ?thesis
    using delete_rows by blast
qed

text \<open>
  An instance: asha clicks delete with the id of a row that belongs to bina. The request
  carries asha's id, and bina's row is still in the table afterwards.
\<close>

theorem handleDelete_scoped_by_id_and_owner_witness:
  "\<lparr>user_id = ''u2'', item = keys\<rparr>
     \<in> set [\<lparr>user_id = ''u1'', item = wallet\<rparr>, \<lparr>user_id = ''u2'', item = keys\<rparr>]
   \<and> user_id \<lparr>user_id = ''u2'', item = keys\<rparr> \<noteq> uid asha
   \<and> \<lparr>user_id = ''u2'', item = keys\<rparr>
     \<in> set (run_delete [\<lparr>user_id = ''u1'', item = wallet\<rparr>, \<lparr>user_id = ''u2'', item = keys\<rparr>]
         (delete_query ''2'' (Some asha)))"
  using handleDelete_scoped_by_id_and_owner
    [where db = "[\<lparr>user_id = ''u1'', item = wallet\<rparr>, \<lparr>user_id = ''u2'', item = keys\<rparr>]"
       and u = asha and listingId = "''2''"]
  by (simp add: asha_def)

subsection \<open>C7: a declined confirmation\<close>

text \<open>
  Claim C7. The delete action prompts for confirmation before anything else. If the
  prompt is declined, the prompt is the only effect: no delete request is issued, and
  the panel state, the row list included, is unchanged.
\<close>

theorem handleDelete_declined_is_noop:
  "handleDelete await_delete False user shown listingId st
     = (st, [Confirm ''Are you sure you want to delete this listing?''])
   \<and> issued_deletes (snd (handleDelete await_delete False user shown listingId st)) = []
   \<and> take 1 (snd (handleDelete await_delete answer user shown listingId st))
     = [Confirm ''Are you sure you want to delete this listing?'']"
  by (simp add: handleDelete_def Let_def split: response.splits option.splits)

subsection \<open>C8: the read query and the cards\<close>

text \<open>
  Claim C8, as far as it holds. For every signed-in owner and status filter a run of the
  effect issues one read query, the one of lines 45--60. Executed by the backend, that
  query returns exactly the listings of the items table that are owned by that user and
  have that status (as a multiset), newest first. When a query succeeds with N rows, the
  panel renders exactly N cards, one per row and in the order of the rows, unless an
  error is set in the state on which the response arrives; then it renders no card. No
  error is set when nothing else has touched the state since the run began.
\<close>

theorem fetchMyListings_selects_and_renders:
  fixes ts :: "string \<Rightarrow> int"
  shows "issued_selects (snd (fetchMyListings await_select (Some u) (Some s) st_prop st))
       = [listings_query u st_prop]
   \<and> issued_selects (snd (fetchMyListings_start (Some u) (Some s) st_prop st))
       = [listings_query u st_prop]
   \<and> (\<exists>rows. run_select ts db (listings_query u st_prop) = Returned (Some rows) None
        \<and> mset rows = mset (map item
              (filter (\<lambda>r. user_id r = uid u \<and> status (item r) = status_str st_prop) db))
        \<and> sorted_wrt (\<lambda>a b. ts (created_at b) \<le> ts (created_at a)) rows)
   \<and> cards (MyListings st_prop' (fst (fetchMyListings_resume (Returned (Some rows') None) st')))
       = (if truthy (error st') then [] else map renderCard rows')
   \<and> (\<not> truthy (error st') \<longrightarrow>
        length (cards (MyListings st_prop'
            (fst (fetchMyListings_resume (Returned (Some rows') None) st'))))
          = length rows'
        \<and> map card_key (cards (MyListings st_prop'
            (fst (fetchMyListings_resume (Returned (Some rows') None) st'))))
          = map lid rows')
   \<and> (\<forall>rows. await_select (listings_query u st_prop) = Returned (Some rows) None \<longrightarrow>
        cards (MyListings st_prop
            (fst (fetchMyListings await_select (Some u) (Some s) st_prop st)))
          = map renderCard rows
        \<and> length (cards (MyListings st_prop
            (fst (fetchMyListings await_select (Some u) (Some s) st_prop st))))
          = length rows
        \<and> map card_key (cards (MyListings st_prop
            (fst (fetchMyListings await_select (Some u) (Some s) st_prop st))))
          = map lid rows)"
proof (intro conjI allI impI)
  show "issued_selects (snd (fetchMyListings await_select (Some u) (Some s) st_prop st))
      = [listings_query u st_prop]"
    by (simp add: fetchMyListings_unfold Let_def split: response.splits option.splits)
next
  show "issued_selects (snd (fetchMyListings_start (Some u) (Some s) st_prop st))
      = [listings_query u st_prop]"
    by (simp add: start_auth)
next
  show "\<exists>rows. run_select ts db (listings_query u st_prop) = Returned (Some rows) None
        \<and> mset rows = mset (map item
              (filter (\<lambda>r. user_id r = uid u \<and> status (item r) = status_str st_prop) db))
        \<and> sorted_wrt (\<lambda>a b. ts (created_at b) \<le> ts (created_at a)) rows"
    unfolding select_rows using sorted_newest_first by simp
next
  show r: "cards (MyListings st_prop' (fst (fetchMyListings_resume (Returned (Some rows') None) st')))
       = (if truthy (error st') then [] else map renderCard rows')"
    by (simp add: cards_displayed displayed_resume_success)
  assume "\<not> truthy (error st')"
  with r show "length (cards (MyListings st_prop'
        (fst (fetchMyListings_resume (Returned (Some rows') None) st'))))
      = length rows'"
    by simp
next
  assume "\<not> truthy (error st')"
  then show "map card_key (cards (MyListings st_prop'
        (fst (fetchMyListings_resume (Returned (Some rows') None) st'))))
      = map lid rows'"
    by (simp add: cards_displayed displayed_resume_success renderCard_def)
next
  fix rows
  assume "await_select (listings_query u st_prop) = Returned (Some rows) None"
  then show c: "cards (MyListings st_prop
        (fst (fetchMyListings await_select (Some u) (Some s) st_prop st)))
      = map renderCard rows"
    by (simp add: fetchMyListings_unfold MyListings_def Let_def)
  then show "length (cards (MyListings st_prop
        (fst (fetchMyListings await_select (Some u) (Some s) st_prop st))))
      = length rows"
    by simp
  from c show "map card_key (cards (MyListings st_prop
        (fst (fetchMyListings await_select (Some u) (Some s) st_prop st))))
      = map lid rows"
    by (simp add: renderCard_def)
qed

text \<open>
  An instance: the table holds two active rows of asha and one of bina. The backend
  answers asha's query with her two rows, the newer one first, and two cards are
  rendered in that order, both by the run in one piece and by the second part on a state
  without error.
\<close>

theorem fetchMyListings_selects_and_renders_witness:
  "run_select clock
       [\<lparr>user_id = ''u1'', item = wallet\<rparr>, \<lparr>user_id = ''u2'', item = wallet\<lparr>lid := ''3''\<rparr>\<rparr>,
        \<lparr>user_id = ''u1'', item = keys\<rparr>]
       (listings_query asha Active)
     = Returned (Some [keys, wallet]) None
   \<and> map card_key (cards (MyListings Active (fst (fetchMyListings
        (run_select clock
          [\<lparr>user_id = ''u1'', item = wallet\<rparr>, \<lparr>user_id = ''u2'', item = wallet\<lparr>lid := ''3''\<rparr>\<rparr>,
           \<lparr>user_id = ''u1'', item = keys\<rparr>])
        (Some asha) (Some (Session ''t'')) Active initial)))) = [''2'', ''1'']
   \<and> \<not> truthy (error \<lparr>listings = [], isLoading = True, error = None\<rparr>)
   \<and> map card_key (cards (MyListings Active (fst (fetchMyListings_resume
        (Returned (Some [keys, wallet]) None)
        \<lparr>listings = [], isLoading = True, error = None\<rparr>)))) = [''2'', ''1'']"
proof -
  have q: "run_select clock
       [\<lparr>user_id = ''u1'', item = wallet\<rparr>, \<lparr>user_id = ''u2'', item = wallet\<lparr>lid := ''3''\<rparr>\<rparr>,
        \<lparr>user_id = ''u1'', item = keys\<rparr>]
       (listings_query asha Active)
     = Returned (Some [keys, wallet]) None"
    by (simp add: select_rows asha_def clock_def keys_def wallet_def)
  have ids: "map lid [keys, wallet] = [''2'', ''1'']"
    by (simp add: keys_def wallet_def)
  show ?thesis
    using q ids fetchMyListings_selects_and_renders
      [where await_select = "run_select clock
          [\<lparr>user_id = ''u1'', item = wallet\<rparr>, \<lparr>user_id = ''u2'', item = wallet\<lparr>lid := ''3''\<rparr>\<rparr>,
           \<lparr>user_id = ''u1'', item = keys\<rparr>]"
         and u = asha and s = "Session ''t''" and st_prop = Active and st = initial
         and ts = clock and db = "[]" and st_prop' = Active and rows' = "[keys, wallet]"
         and st' = "\<lparr>listings = [], isLoading = True, error = None\<rparr>"]
    by (simp add: renderCard_def)
qed

text \<open>
  Claim C8 as stated fails where two runs of the effect overlap. The status filter
  changes from "archived" to "active" while the first query is in flight. The first
  query then fails, which sets the error, and the second succeeds with two rows. The
  second run cleared the error before its request and does not clear it again, so the
  panel renders the error branch and no card.
\<close>

theorem fetchMyListings_overlapping_failure_counterexample:
  "reads (run_events (Some asha) Archived
       [Deps (Some asha) (Some (Session ''t'')) Archived,
        Deps (Some asha) (Some (Session ''t'')) Active])
     = [listings_query asha Archived, listings_query asha Active]
   \<and> MyListings Active (ui (run_events (Some asha) Archived
       [Deps (Some asha) (Some (Session ''t'')) Archived,
        Deps (Some asha) (Some (Session ''t'')) Active,
        SelectDone 0 (Returned None (Some ''timeout'')),
        SelectDone 0 (Returned (Some [keys, wallet]) None)]))
     = ErrorView ''Failed to load listings'' Reload
   \<and> length (cards (MyListings Active (ui (run_events (Some asha) Archived
       [Deps (Some asha) (Some (Session ''t'')) Archived,
        Deps (Some asha) (Some (Session ''t'')) Active,
        SelectDone 0 (Returned None (Some ''timeout'')),
        SelectDone 0 (Returned (Some [keys, wallet]) None)])))) = 0
   \<and> length [keys, wallet] = 2"
  by (simp add: run_events_def fetchMyListings_start_def fetchMyListings_resume_def
      MyListings_def initial_def Let_def drop_nth_def)

subsection \<open>C9: a read query that fails\<close>

text \<open>
  Claim C9. If the read query throws or comes back with an error, the panel renders the
  error branch: the message "Failed to load listings" and a retry control whose action
  reloads the window.
\<close>

theorem fetchMyListings_failure_renders_error:
  assumes "await_select (listings_query u st_prop) = Threw
           \<or> await_select (listings_query u st_prop) = Returned d (Some e)"
  shows "MyListings st_prop (fst (fetchMyListings await_select (Some u) (Some s) st_prop st))
           = ErrorView ''Failed to load listings'' Reload"
  using assms by (auto simp: fetchMyListings_unfold MyListings_def Let_def)

text \<open>An instance: the backend answers with an error object.\<close>

theorem fetchMyListings_failure_renders_error_witness:
  "(\<lambda>q. Returned None (Some ''permission denied'')) (listings_query asha Closed)
     = (Returned None (Some ''permission denied'') :: listing list response)
   \<and> MyListings Closed (fst (fetchMyListings (\<lambda>q. Returned None (Some ''permission denied''))
        (Some asha) (Some (Session ''t'')) Closed initial))
     = ErrorView ''Failed to load listings'' Reload"
  using fetchMyListings_failure_renders_error
    [where await_select = "\<lambda>q. Returned None (Some ''permission denied'')" and u = asha
       and st_prop = Closed and d = None and e = "''permission denied''"
       and s = "Session ''t''" and st = initial]
  by simp

subsection \<open>C10: empty strings in a location\<close>


end
